theory Spec2Isabelle
  imports Main "HOL-Library.Sublist"
begin

section \<open>JavaScript values\<close>

text \<open>
  The values that flow through \<^verbatim>\<open>strategy.js\<close>: errors reported by the Kerberos engine
  and by the verify callback, principals, users, option values. Only the two operations
  the source applies to them are needed: the truthiness test of \<^verbatim>\<open>if (x)\<close>, \<^verbatim>\<open>!x\<close> and
  \<^verbatim>\<open>a || b\<close>, and the conversion to a string of \<^verbatim>\<open>"..." + x\<close>. Numbers are integers
  here (no NaN, no fractions); \<open>JError m\<close> is an \<^verbatim>\<open>Error\<close> object with message \<open>m\<close>;
  \<open>JObj\<close> is a plain object, given by its properties.
\<close>

datatype jsval =
    JUndefined
  | JNull
  | JBool bool
  | JNum int
  | JStr string
  | JError string
  | JObj "(string \<times> jsval) list"

fun truthy :: "jsval \<Rightarrow> bool" where
  "truthy JUndefined = False"
| "truthy JNull = False"
| "truthy (JBool b) = b"
| "truthy (JNum n) = (n \<noteq> 0)"
| "truthy (JStr s) = (s \<noteq> [])"
| "truthy (JError m) = True"
| "truthy (JObj ps) = True"

definition digit_char :: "nat \<Rightarrow> char" where
  "digit_char d = char_of (48 + d)"

function string_of_nat :: "nat \<Rightarrow> string" where
  "string_of_nat n =
     (if n < 10 then [digit_char n] else string_of_nat (n div 10) @ [digit_char (n mod 10)])"
  by pat_completeness auto
termination
  by (relation "measure id") auto

definition string_of_int :: "int \<Rightarrow> string" where
  "string_of_int i = (if i < 0 then CHR ''-'' # string_of_nat (nat (- i)) else string_of_nat (nat i))"

text \<open>\<^verbatim>\<open>String(x)\<close>, as string concatenation applies it to its operand.\<close>

fun to_string :: "jsval \<Rightarrow> string" where
  "to_string JUndefined = ''undefined''"
| "to_string JNull = ''null''"
| "to_string (JBool b) = (if b then ''true'' else ''false'')"
| "to_string (JNum n) = string_of_int n"
| "to_string (JStr s) = s"
| "to_string (JError m) = (if m = [] then ''Error'' else ''Error: '' @ m)"
| "to_string (JObj ps) = ''[object Object]''"

text \<open>\<^verbatim>\<open>a || b\<close>\<close>

definition js_or :: "jsval \<Rightarrow> jsval \<Rightarrow> jsval" where
  "js_or a b = (if truthy a then a else b)"

subsection \<open>String methods\<close>

text \<open>
  \<^verbatim>\<open>s.lastIndexOf(p, pos)\<close>: the largest index \<open>k \<le> min pos (length s)\<close> at which \<open>p\<close>
  occurs in \<open>s\<close>, or \<open>-1\<close>. The source calls it with position 0.
\<close>

fun lastIndexOf_from :: "string \<Rightarrow> string \<Rightarrow> nat \<Rightarrow> int" where
  "lastIndexOf_from s p 0 = (if take (length p) s = p then 0 else - 1)"
| "lastIndexOf_from s p (Suc k) =
     (if take (length p) (drop (Suc k) s) = p then int (Suc k) else lastIndexOf_from s p k)"

definition lastIndexOf :: "string \<Rightarrow> string \<Rightarrow> nat \<Rightarrow> int" where
  "lastIndexOf s p pos = lastIndexOf_from s p (min pos (length s))"

definition substring :: "string \<Rightarrow> nat \<Rightarrow> string" where
  "substring s start = drop start s"

definition startsWith :: "string \<Rightarrow> string \<Rightarrow> bool" where
  "startsWith s p = (take (length p) s = p)"

section \<open>The collaborators\<close>

text \<open>
  The request: \<open>get\<close> is Express's header lookup (a string, or nothing when the header
  is not there), \<open>session\<close> the session object when there is one, given by its
  properties, and \<open>props\<close> the properties written on the request object itself.
\<close>

record request =
  get :: "string \<Rightarrow> string option"
  session :: "(string \<rightharpoonup> jsval) option"
  props :: "string \<rightharpoonup> jsval"

text \<open>
  The Kerberos engine. \<open>initializeServer\<close> hands its callback an error and a server
  handle; the handle's \<open>step\<close> hands its callback an error and a response, and leaves
  \<open>username\<close> and \<open>delegatedCredentialsCache\<close> on the handle. Each callback is taken to be
  invoked exactly once, so a call is modelled by the arguments its callback receives.
\<close>

record server_state =
  username :: jsval
  delegatedCredentialsCache :: jsval

record kserver =
  step :: "string \<Rightarrow> jsval \<times> jsval \<times> server_state"

record kerberos =
  initializeServer :: "jsval \<Rightarrow> jsval \<times> kserver option"

text \<open>
  The verify callback of the application is called with \<open>(req, principal, verified)\<close> or
  with \<open>(principal, verified)\<close>; it is taken to call \<open>verified\<close> exactly once and to leave
  the request as it is, so it is modelled by the \<open>(err, user, info)\<close> it passes on.
\<close>

datatype verify_args = WithReq request jsval | PrincipalOnly jsval

type_synonym verify_fn = "verify_args \<Rightarrow> jsval \<times> jsval \<times> jsval"

text \<open>
  Modelled from the spec: the class \<^verbatim>\<open>NoUserError\<close> of \<^verbatim>\<open>./errors/nousererror\<close> is not among
  the sources. The spec says of it only that the error object carries the principal it
  was constructed with; the property names are the model's.
\<close>

definition NoUserError :: "jsval \<Rightarrow> jsval" where
  "NoUserError princ = JObj [(''name'', JStr ''NoUserError''), (''principal'', princ)]"

section \<open>The strategy\<close>

record strategy =
  name :: string
  self_verify :: verify_fn
  self_passReqToCallback :: jsval
  self_servicePrincipalName :: jsval
  self_verbose :: jsval
  self_enableConstrainedDelegation :: jsval

record strategy_options =
  passReqToCallback :: jsval
  servicePrincipalName :: jsval
  verbose :: jsval
  enableConstrainedDelegation :: jsval

text \<open>The object \<^verbatim>\<open>{}\<close>: every property reads as \<^verbatim>\<open>undefined\<close>.\<close>

definition empty_options :: strategy_options where
  "empty_options =
     \<lparr>passReqToCallback = JUndefined, servicePrincipalName = JUndefined,
      verbose = JUndefined, enableConstrainedDelegation = JUndefined\<rparr>"

datatype js_exception = Throw_Error string | Throw_TypeError

text \<open>
  The first argument of the constructor is a function, an options object or missing;
  the second, as documented (\<^verbatim>\<open>@param {Function} verify\<close>), a function or missing.
  When the first argument is a function it becomes \<open>verify\<close> and \<open>options\<close> becomes \<^verbatim>\<open>{}\<close>;
  then \<^verbatim>\<open>if (!verify) throw new Error(...)\<close>; then the four options are read, which
  throws a \<^verbatim>\<open>TypeError\<close> when \<open>options\<close> is \<^verbatim>\<open>undefined\<close>. The call of the base constructor
  \<^verbatim>\<open>passport.Strategy.call(this)\<close> leaves the fields modelled here alone.
\<close>

datatype ctor_arg = ArgFunction verify_fn | ArgObject strategy_options | ArgUndefined

definition Strategy :: "ctor_arg \<Rightarrow> verify_fn option \<Rightarrow> js_exception + strategy" where
  "Strategy options verify =
     (let (options', verify') =
            (case options of
               ArgFunction f \<Rightarrow> (ArgObject empty_options, Some f)
             | ArgObject ob \<Rightarrow> (options, verify)
             | ArgUndefined \<Rightarrow> (options, verify))
      in case verify' of
           None \<Rightarrow> Inl (Throw_Error ''negotiate authentication strategy requires a verify function'')
         | Some v \<Rightarrow>
             (case options' of
                ArgObject ob \<Rightarrow>
                  Inr \<lparr>name = ''negotiate'', self_verify = v,
                       self_passReqToCallback = passReqToCallback ob,
                       self_servicePrincipalName = servicePrincipalName ob,
                       self_verbose = verbose ob,
                       self_enableConstrainedDelegation = enableConstrainedDelegation ob\<rparr>
              | ArgFunction f \<Rightarrow>
                  Inr \<lparr>name = ''negotiate'', self_verify = v,
                       self_passReqToCallback = JUndefined,
                       self_servicePrincipalName = JUndefined,
                       self_verbose = JUndefined,
                       self_enableConstrainedDelegation = JUndefined\<rparr>
              | ArgUndefined \<Rightarrow> Inl Throw_TypeError))"

section \<open>authenticate\<close>

text \<open>
  The per-call options are an object (passport passes \<^verbatim>\<open>{}\<close> when the application gives
  none); \<^verbatim>\<open>noUserRedirect\<close> is \<^verbatim>\<open>undefined\<close> when it is not configured.

  What a run of \<^verbatim>\<open>authenticate\<close> leaves behind: the request as written to, the lines
  sent to the console, the calls made to the Kerberos engine and to the verify callback,
  the actions of the passport API that were invoked (\<^verbatim>\<open>fail\<close>, \<^verbatim>\<open>error\<close>, \<^verbatim>\<open>redirect\<close>,
  \<^verbatim>\<open>success\<close>), and an exception nobody caught.
\<close>

datatype console_line = Console_log string | Console_error string

datatype engine_call = InitializeServer jsval | Step string

datatype action = Fail jsval | Error jsval | Redirect jsval | Success jsval jsval

record world =
  req :: request
  console :: "console_line list"
  engine_calls :: "engine_call list"
  verify_calls :: "verify_args list"
  actions :: "action list"
  uncaught :: "js_exception option"

record auth_options =
  noUserRedirect :: jsval

definition start :: "request \<Rightarrow> world" where
  "start r = \<lparr>req = r, console = [], engine_calls = [], verify_calls = [],
               actions = [], uncaught = None\<rparr>"

definition console_log :: "string \<Rightarrow> world \<Rightarrow> world" where
  "console_log s w = w\<lparr>console := console w @ [Console_log s]\<rparr>"

definition console_error :: "string \<Rightarrow> world \<Rightarrow> world" where
  "console_error s w = w\<lparr>console := console w @ [Console_error s]\<rparr>"

definition emit :: "action \<Rightarrow> world \<Rightarrow> world" where
  "emit a w = w\<lparr>actions := actions w @ [a]\<rparr>"

definition engine_call :: "engine_call \<Rightarrow> world \<Rightarrow> world" where
  "engine_call c w = w\<lparr>engine_calls := engine_calls w @ [c]\<rparr>"

definition verify_call :: "verify_args \<Rightarrow> world \<Rightarrow> world" where
  "verify_call a w = w\<lparr>verify_calls := verify_calls w @ [a]\<rparr>"

text \<open>\<^verbatim>\<open>if (self._verbose) { ... }\<close>\<close>

definition when_verbose :: "strategy \<Rightarrow> (world \<Rightarrow> world) \<Rightarrow> world \<Rightarrow> world" where
  "when_verbose self f w = (if truthy (self_verbose self) then f w else w)"

text \<open>\<^verbatim>\<open>req.session.k = v\<close> under \<^verbatim>\<open>if (req.session)\<close>, and \<^verbatim>\<open>req.k = v\<close>.\<close>

definition set_session_prop :: "string \<Rightarrow> jsval \<Rightarrow> world \<Rightarrow> world" where
  "set_session_prop k v w =
     (case session (req w) of
        None \<Rightarrow> w
      | Some s \<Rightarrow> w\<lparr>req := (req w)\<lparr>session := Some (s(k \<mapsto> v))\<rparr>\<rparr>)"

definition set_req_prop :: "string \<Rightarrow> jsval \<Rightarrow> world \<Rightarrow> world" where
  "set_req_prop k v w = w\<lparr>req := (req w)\<lparr>props := (props (req w))(k \<mapsto> v)\<rparr>\<rparr>"

definition failIfError :: "jsval \<Rightarrow> string \<Rightarrow> world \<Rightarrow> nat \<times> world" where
  "failIfError err stp w =
     (if truthy err
      then (1, emit (Error err)
                 (console_error
                    (''authentication failed at operation '' @ [CHR 0x27] @ stp @ [CHR 0x27]
                       @ '' with error: '' @ to_string err) w))
      else (0, w))"

definition verified ::
  "strategy \<Rightarrow> auth_options \<Rightarrow> jsval \<Rightarrow> jsval \<times> jsval \<times> jsval \<Rightarrow> world \<Rightarrow> world" where
  "verified self options princ res w =
     (case res of (err, user, info) \<Rightarrow>
        if truthy err then emit (Error err) w
        else if \<not> truthy user then
          (if truthy (noUserRedirect options)
           then emit (Redirect (noUserRedirect options))
                  (when_verbose self
                     (console_log (''redirecting to: '' @ to_string (noUserRedirect options))) w)
           else emit (Fail (NoUserError princ)) w)
        else emit (Success user info) w)"

text \<open>
  The body of the callback of \<^verbatim>\<open>server.step\<close>: the principal is read from the handle
  and written to the session (when there is one) and to the request, the delegation
  cache likewise when delegation is enabled; \<^verbatim>\<open>failIfError(err, 'clean')\<close> tests the error
  of the step once more; then verify is called.
\<close>

definition on_step ::
  "strategy \<Rightarrow> auth_options \<Rightarrow> jsval \<times> jsval \<times> server_state \<Rightarrow> world \<Rightarrow> world" where
  "on_step self options res w =
     (case res of (err, serverResponse, server) \<Rightarrow>
        (case failIfError err ''step'' w of (r, w1) \<Rightarrow>
           if r \<noteq> 0 then w1
           else
             let princ = username server;
                 w2 = set_session_prop ''authenticatedPrincipal'' princ w1;
                 w3 = set_req_prop ''authenticatedPrincipal'' princ w2;
                 w4 = (if truthy (self_enableConstrainedDelegation self)
                       then set_req_prop ''delegatedCredentialsCache'' (delegatedCredentialsCache server)
                              (set_session_prop ''delegatedCredentialsCache''
                                 (delegatedCredentialsCache server) w3)
                       else w3)
             in (case failIfError err ''clean'' w4 of (r', w5) \<Rightarrow>
                   if r' \<noteq> 0 then w5
                   else if truthy (self_passReqToCallback self)
                   then verified self options princ
                          (self_verify self (WithReq (req w5) princ))
                          (verify_call (WithReq (req w5) princ) w5)
                   else verified self options princ
                          (self_verify self (PrincipalOnly princ))
                          (verify_call (PrincipalOnly princ) w5))))"

text \<open>
  The body of the callback of \<^verbatim>\<open>kerberos.initializeServer\<close>. When no error is reported
  and no handle is handed over, \<^verbatim>\<open>server.step\<close> throws a \<^verbatim>\<open>TypeError\<close>.
\<close>

definition on_init ::
  "strategy \<Rightarrow> auth_options \<Rightarrow> string \<Rightarrow> jsval \<times> kserver option \<Rightarrow> world \<Rightarrow> world" where
  "on_init self options auth res w =
     (case res of (err, server) \<Rightarrow>
        (case failIfError err ''init'' w of (r, w1) \<Rightarrow>
           if r \<noteq> 0 then w1
           else (case server of
                   None \<Rightarrow> w1\<lparr>uncaught := Some Throw_TypeError\<rparr>
                 | Some srv \<Rightarrow>
                     on_step self options (step srv auth) (engine_call (Step auth) w1))))"

definition authenticate :: "strategy \<Rightarrow> kerberos \<Rightarrow> request \<Rightarrow> auth_options \<Rightarrow> world" where
  "authenticate self krb r options =
     (let w = start r in
      case get r ''authorization'' of
        None \<Rightarrow>
          emit (Fail (JStr ''Negotiate'')) (when_verbose self (console_log ''No authorization header'') w)
      | Some auth \<Rightarrow>
          if auth = [] then
            emit (Fail (JStr ''Negotiate''))
              (when_verbose self (console_log ''No authorization header'') w)
          else if lastIndexOf auth ''Negotiate '' 0 \<noteq> 0 then
            emit (Error (JStr (''Malformed authentication token: '' @ auth)))
              (when_verbose self
                 (console_error (''Malformed authentication token: '' @ auth)) w)
          else
            let auth' = substring auth (length ''Negotiate '') in
            if startsWith auth' ''TlR'' then
              emit (Error (JStr (''Client sent NTLM header: '' @ auth')))
                (when_verbose self (console_error (''Client sent NTLM header: '' @ auth')) w)
            else
              let spn = js_or (self_servicePrincipalName self) (JStr ''HTTP'');
                  w1 = when_verbose self (console_log (''InitServer '' @ to_string spn)) w
              in on_init self options auth' (initializeServer krb spn)
                   (engine_call (InitializeServer spn) w1))"

section \<open>Example inputs\<close>

text \<open>
  A request with the given authorization header and session; a Kerberos engine whose
  two steps report the given errors and whose handle, after the step, names the
  principal \<^verbatim>\<open>alice@EXAMPLE.COM\<close> and the cache \<^verbatim>\<open>krb5cc_tmp123\<close>; a strategy with the
  given flags whose verify callback completes with the given result.
\<close>

definition ex_request :: "string option \<Rightarrow> (string \<rightharpoonup> jsval) option \<Rightarrow> request" where
  "ex_request hdr sess =
     \<lparr>get = (\<lambda>n. if n = ''authorization'' then hdr else None), session = sess,
      props = Map.empty\<rparr>"

definition ex_state :: server_state where
  "ex_state = \<lparr>username = JStr ''alice@EXAMPLE.COM'',
                delegatedCredentialsCache = JStr ''krb5cc_tmp123''\<rparr>"

definition ex_server :: "jsval \<Rightarrow> kserver" where
  "ex_server serr = \<lparr>step = (\<lambda>tok. (serr, JStr ''response'', ex_state))\<rparr>"

definition ex_kerberos :: "jsval \<Rightarrow> jsval \<Rightarrow> kerberos" where
  "ex_kerberos ierr serr =
     \<lparr>initializeServer = (\<lambda>spn. (ierr, if truthy ierr then None else Some (ex_server serr)))\<rparr>"

definition ex_strategy :: "jsval \<Rightarrow> jsval \<Rightarrow> jsval \<times> jsval \<times> jsval \<Rightarrow> strategy" where
  "ex_strategy verb deleg res =
     \<lparr>name = ''negotiate'', self_verify = (\<lambda>a. res), self_passReqToCallback = JUndefined,
      self_servicePrincipalName = JUndefined, self_verbose = verb,
      self_enableConstrainedDelegation = deleg\<rparr>"

definition ex_options :: "jsval \<Rightarrow> auth_options" where
  "ex_options redir = \<lparr>noUserRedirect = redir\<rparr>"

section \<open>Notions used to state the properties\<close>

text \<open>
  The line \<^verbatim>\<open>failIfError\<close> writes to the error console for a step and its error.
\<close>

definition failure_line :: "string \<Rightarrow> jsval \<Rightarrow> string" where
  "failure_line stp err =
     ''authentication failed at operation '' @ [CHR 0x27] @ stp @ [CHR 0x27]
       @ '' with error: '' @ to_string err"

text \<open>
  The reading of the specification under which the payload of the \<^verbatim>\<open>error\<close> action is
  one string embedding the step label and the cause: both occur in the payload's text.
\<close>

definition carries_step_and_cause :: "jsval \<Rightarrow> string \<Rightarrow> jsval \<Rightarrow> bool" where
  "carries_step_and_cause payload stp cause =
     (sublist stp (to_string payload) \<and> sublist (to_string cause) (to_string payload))"

text \<open>
  What a run shows apart from its console output.
\<close>

definition observable ::
  "world \<Rightarrow> request \<times> engine_call list \<times> verify_args list \<times> action list \<times> js_exception option" where
  "observable w = (req w, engine_calls w, verify_calls w, actions w, uncaught w)"

section \<open>Facts about the string tests\<close>

lemma lastIndexOf_0: "(lastIndexOf s p 0 = 0) = prefix p s"
proof
  assume "lastIndexOf s p 0 = 0"
  then have "take (length p) s = p"
    by (simp add: lastIndexOf_def split: if_splits)
  then show "prefix p s"
    by (metis take_is_prefix)
next
  assume "prefix p s"
  then show "lastIndexOf s p 0 = 0"
    by (auto simp: lastIndexOf_def prefix_def)
qed

lemma startsWith_prefix: "startsWith s p = prefix p s"
proof
  assume "startsWith s p"
  then show "prefix p s"
    unfolding startsWith_def by (metis take_is_prefix)
next
  assume "prefix p s"
  then show "startsWith s p"
    by (auto simp: startsWith_def prefix_def)
qed

section \<open>Unfolding a run\<close>

lemmas run_defs =
  authenticate_def on_init_def on_step_def verified_def failIfError_def
  start_def emit_def console_log_def console_error_def engine_call_def verify_call_def
  when_verbose_def set_session_prop_def set_req_prop_def substring_def js_or_def Let_def

lemmas ex_defs =
  ex_request_def ex_state_def ex_server_def ex_kerberos_def ex_strategy_def ex_options_def

text \<open>
  The components of the world after each primitive step; with them a run is followed
  component by component, without unfolding the worlds themselves.
\<close>

lemma emit_simps:
  "req (emit a w) = req w" "console (emit a w) = console w"
  "engine_calls (emit a w) = engine_calls w" "verify_calls (emit a w) = verify_calls w"
  "actions (emit a w) = actions w @ [a]" "uncaught (emit a w) = uncaught w"
  by (simp_all add: emit_def)

lemma console_log_simps:
  "req (console_log s w) = req w" "console (console_log s w) = console w @ [Console_log s]"
  "engine_calls (console_log s w) = engine_calls w" "verify_calls (console_log s w) = verify_calls w"
  "actions (console_log s w) = actions w" "uncaught (console_log s w) = uncaught w"
  by (simp_all add: console_log_def)

lemma console_error_simps:
  "req (console_error s w) = req w" "console (console_error s w) = console w @ [Console_error s]"
  "engine_calls (console_error s w) = engine_calls w"
  "verify_calls (console_error s w) = verify_calls w"
  "actions (console_error s w) = actions w" "uncaught (console_error s w) = uncaught w"
  by (simp_all add: console_error_def)

lemma engine_call_simps:
  "req (engine_call c w) = req w" "console (engine_call c w) = console w"
  "engine_calls (engine_call c w) = engine_calls w @ [c]"
  "verify_calls (engine_call c w) = verify_calls w"
  "actions (engine_call c w) = actions w" "uncaught (engine_call c w) = uncaught w"
  by (simp_all add: engine_call_def)

lemma verify_call_simps:
  "req (verify_call c w) = req w" "console (verify_call c w) = console w"
  "engine_calls (verify_call c w) = engine_calls w"
  "verify_calls (verify_call c w) = verify_calls w @ [c]"
  "actions (verify_call c w) = actions w" "uncaught (verify_call c w) = uncaught w"
  by (simp_all add: verify_call_def)

lemma when_verbose_log_simps:
  "req (when_verbose self (console_log s) w) = req w"
  "console (when_verbose self (console_log s) w) =
     (if truthy (self_verbose self) then console w @ [Console_log s] else console w)"
  "engine_calls (when_verbose self (console_log s) w) = engine_calls w"
  "verify_calls (when_verbose self (console_log s) w) = verify_calls w"
  "actions (when_verbose self (console_log s) w) = actions w"
  "uncaught (when_verbose self (console_log s) w) = uncaught w"
  by (simp_all add: when_verbose_def console_log_simps)

lemma when_verbose_error_simps:
  "req (when_verbose self (console_error s) w) = req w"
  "console (when_verbose self (console_error s) w) =
     (if truthy (self_verbose self) then console w @ [Console_error s] else console w)"
  "engine_calls (when_verbose self (console_error s) w) = engine_calls w"
  "verify_calls (when_verbose self (console_error s) w) = verify_calls w"
  "actions (when_verbose self (console_error s) w) = actions w"
  "uncaught (when_verbose self (console_error s) w) = uncaught w"
  by (simp_all add: when_verbose_def console_error_simps)

lemma set_session_prop_simps:
  "req (set_session_prop k v w) =
     (req w)\<lparr>session := map_option (\<lambda>s. s(k \<mapsto> v)) (session (req w))\<rparr>"
  "console (set_session_prop k v w) = console w"
  "engine_calls (set_session_prop k v w) = engine_calls w"
  "verify_calls (set_session_prop k v w) = verify_calls w"
  "actions (set_session_prop k v w) = actions w"
  "uncaught (set_session_prop k v w) = uncaught w"
  by (simp_all add: set_session_prop_def split: option.splits)

lemma set_req_prop_simps:
  "req (set_req_prop k v w) = (req w)\<lparr>props := (props (req w))(k \<mapsto> v)\<rparr>"
  "console (set_req_prop k v w) = console w"
  "engine_calls (set_req_prop k v w) = engine_calls w"
  "verify_calls (set_req_prop k v w) = verify_calls w"
  "actions (set_req_prop k v w) = actions w"
  "uncaught (set_req_prop k v w) = uncaught w"
  by (simp_all add: set_req_prop_def)

lemma start_simps:
  "req (start r) = r" "console (start r) = []" "engine_calls (start r) = []"
  "verify_calls (start r) = []" "actions (start r) = []" "uncaught (start r) = None"
  by (simp_all add: start_def)

lemma verified_simps:
  "req (verified self options p res w) = req w"
  "engine_calls (verified self options p res w) = engine_calls w"
  "verify_calls (verified self options p res w) = verify_calls w"
  "uncaught (verified self options p res w) = uncaught w"
  "actions (verified self options p res w) =
     actions w @
       [case res of (verr, user, info) \<Rightarrow>
          if truthy verr then Error verr
          else if \<not> truthy user
          then (if truthy (noUserRedirect options) then Redirect (noUserRedirect options)
                else Fail (NoUserError p))
          else Success user info]"
  by (simp_all add: verified_def emit_simps when_verbose_log_simps split: prod.splits)

lemmas world_simps =
  emit_simps console_log_simps console_error_simps engine_call_simps verify_call_simps
  when_verbose_log_simps when_verbose_error_simps set_session_prop_simps set_req_prop_simps
  start_simps

lemmas flow_defs =
  authenticate_def on_init_def on_step_def failIfError_def substring_def Let_def
  lastIndexOf_0 startsWith_prefix

section \<open>A negotiation that succeeds\<close>

text \<open>
  The header carries a token that is not NTLM, the engine initialises without error and
  hands over a server handle, and the step reports no error and leaves the state \<open>st\<close>
  on the handle. Then verify is called once, on the request as the run leaves it; the
  one action is decided by what verify passes on; and the request has been written to
  before verify is called.
\<close>

lemma negotiated_verify_call:
  assumes "get r ''authorization'' = Some (''Negotiate '' @ tok)" and "\<not> prefix ''TlR'' tok"
    and "initializeServer krb (js_or (self_servicePrincipalName self) (JStr ''HTTP'')) = (ierr, Some srv)"
    and "\<not> truthy ierr" and "step srv tok = (serr, resp, st)" and "\<not> truthy serr"
  shows "verify_calls (authenticate self krb r options) =
           [if truthy (self_passReqToCallback self)
            then WithReq (req (authenticate self krb r options)) (username st)
            else PrincipalOnly (username st)]"
  using assms
  by (simp add: flow_defs world_simps verified_simps)

lemma negotiated_actions:
  assumes "get r ''authorization'' = Some (''Negotiate '' @ tok)" and "\<not> prefix ''TlR'' tok"
    and "initializeServer krb (js_or (self_servicePrincipalName self) (JStr ''HTTP'')) = (ierr, Some srv)"
    and "\<not> truthy ierr" and "step srv tok = (serr, resp, st)" and "\<not> truthy serr"
    and "self_verify self (if truthy (self_passReqToCallback self)
            then WithReq (req (authenticate self krb r options)) (username st)
            else PrincipalOnly (username st)) = (verr, user, info)"
  shows "actions (authenticate self krb r options) =
          [if truthy verr then Error verr
           else if \<not> truthy user
           then (if truthy (noUserRedirect options) then Redirect (noUserRedirect options)
                 else Fail (NoUserError (username st)))
           else Success user info]"
  using assms
  apply (cases "truthy (self_passReqToCallback self)")
  by (simp_all add: flow_defs world_simps verified_simps)

lemma negotiated_req:
  assumes "get r ''authorization'' = Some (''Negotiate '' @ tok)" and "\<not> prefix ''TlR'' tok"
    and "initializeServer krb (js_or (self_servicePrincipalName self) (JStr ''HTTP'')) = (ierr, Some srv)"
    and "\<not> truthy ierr" and "step srv tok = (serr, resp, st)" and "\<not> truthy serr"
  shows "req (authenticate self krb r options) =
           (if truthy (self_enableConstrainedDelegation self)
            then r\<lparr>session :=
                     map_option (\<lambda>s. s(''authenticatedPrincipal'' \<mapsto> username st,
                                        ''delegatedCredentialsCache'' \<mapsto> delegatedCredentialsCache st))
                       (session r),
                   props := (props r)(''authenticatedPrincipal'' \<mapsto> username st,
                                      ''delegatedCredentialsCache'' \<mapsto> delegatedCredentialsCache st)\<rparr>
            else r\<lparr>session :=
                     map_option (\<lambda>s. s(''authenticatedPrincipal'' \<mapsto> username st)) (session r),
                   props := (props r)(''authenticatedPrincipal'' \<mapsto> username st)\<rparr>)"
    and "uncaught (authenticate self krb r options) = None"
  using assms
  by (simp_all add: flow_defs world_simps verified_simps option.map_comp comp_def)

section \<open>The verbose flag and what a run shows\<close>

lemma failIfError_observable:
  assumes "observable w' = observable w"
  shows "fst (failIfError err stp w') = fst (failIfError err stp w)"
    and "observable (snd (failIfError err stp w')) = observable (snd (failIfError err stp w))"
  using assms by (simp_all add: failIfError_def observable_def world_simps)

lemma on_step_observable:
  assumes "observable w' = observable w"
  shows "observable (on_step (self\<lparr>self_verbose := v\<rparr>) options res w')
           = observable (on_step self options res w)"
  using assms
  by (simp add: on_step_def failIfError_def Let_def observable_def world_simps verified_simps
           split: prod.splits)

lemma on_init_observable:
  assumes "observable w' = observable w"
  shows "observable (on_init (self\<lparr>self_verbose := v\<rparr>) options auth res w')
           = observable (on_init self options auth res w)"
proof (cases res)
  case (Pair err server)
  show ?thesis
  proof (cases "truthy err")
    case True
    with Pair assms show ?thesis
      by (simp add: on_init_def failIfError_def observable_def world_simps)
  next
    case False
    show ?thesis
    proof (cases server)
      case None
      with Pair False assms show ?thesis
        by (simp add: on_init_def failIfError_def observable_def)
    next
      case (Some srv)
      have "observable (engine_call (Step auth) w') = observable (engine_call (Step auth) w)"
        using assms by (simp add: observable_def world_simps)
      from on_step_observable [OF this] Pair False Some show ?thesis
        by (simp add: on_init_def failIfError_def)
    qed
  qed
qed

section \<open>The claims\<close>

text \<open>
  C1. When the authorization header is absent (missing, or the empty string), the one
  action \<^verbatim>\<open>authenticate\<close> emits is \<^verbatim>\<open>fail('Negotiate')\<close>, the challenge: no error, success
  or redirect. The Kerberos engine and the verify callback are not called, nothing is
  thrown and the request is left as it was. This holds whatever the strategy's
  configuration, the engine and the options are.
\<close>

theorem C1_absent_header_challenge:
  assumes "get r ''authorization'' = None \<or> get r ''authorization'' = Some []"
  shows "actions (authenticate self krb r options) = [Fail (JStr ''Negotiate'')]
       \<and> engine_calls (authenticate self krb r options) = []
       \<and> verify_calls (authenticate self krb r options) = []
       \<and> uncaught (authenticate self krb r options) = None
       \<and> req (authenticate self krb r options) = r"
  using assms by (auto simp: run_defs)

theorem C1_absent_header_challenge_witness:
  "actions (authenticate (ex_strategy (JBool True) JUndefined (JNull, JNull, JNull))
             (ex_kerberos JNull JNull) (ex_request None None) (ex_options JUndefined))
     = [Fail (JStr ''Negotiate'')]
   \<and> actions (authenticate (ex_strategy JUndefined JUndefined (JNull, JNull, JNull))
             (ex_kerberos JNull JNull) (ex_request (Some []) None) (ex_options JUndefined))
     = [Fail (JStr ''Negotiate'')]"
  using C1_absent_header_challenge
          [of "ex_request None None" "ex_strategy (JBool True) JUndefined (JNull, JNull, JNull)"
              "ex_kerberos JNull JNull" "ex_options JUndefined"]
        C1_absent_header_challenge
          [of "ex_request (Some []) None" "ex_strategy JUndefined JUndefined (JNull, JNull, JNull)"
              "ex_kerberos JNull JNull" "ex_options JUndefined"]
  by (simp add: ex_request_def)

text \<open>
  C2. When the authorization header is present (a non-empty string) and either does not
  start with the literal \<^verbatim>\<open>"Negotiate "\<close> or continues after it with \<^verbatim>\<open>TlR\<close>, the one action
  emitted is \<^verbatim>\<open>error\<close> with a string: \<^verbatim>\<open>"Malformed authentication token: "\<close> followed by the
  header as received in the first case, \<^verbatim>\<open>"Client sent NTLM header: "\<close> followed by the
  token (the header after its first ten characters) in the second. The Kerberos engine
  is not called.
\<close>

theorem C2_malformed_or_ntlm_error:
  assumes "get r ''authorization'' = Some a" and "a \<noteq> []"
    and "\<not> prefix ''Negotiate '' a \<or> prefix ''Negotiate TlR'' a"
  shows "actions (authenticate self krb r options) =
           [Error (JStr (if prefix ''Negotiate '' a
                         then ''Client sent NTLM header: '' @ drop 10 a
                         else ''Malformed authentication token: '' @ a))]
       \<and> engine_calls (authenticate self krb r options) = []
       \<and> verify_calls (authenticate self krb r options) = []
       \<and> req (authenticate self krb r options) = r"
proof (cases "prefix ''Negotiate '' a")
  case False
  with assms show ?thesis
    by (simp add: run_defs lastIndexOf_0)
next
  case True
  with assms(3) have "prefix ''Negotiate TlR'' a" by simp
  then obtain rest where a: "a = ''Negotiate TlR'' @ rest"
    by (auto simp: prefix_def)
  with assms(1) show ?thesis
    by (simp add: run_defs lastIndexOf_0 startsWith_prefix)
qed

theorem C2_malformed_or_ntlm_error_witness:
  "actions (authenticate (ex_strategy JUndefined JUndefined (JNull, JNull, JNull))
             (ex_kerberos JNull JNull) (ex_request (Some ''Basic dXNlcg=='') None)
             (ex_options JUndefined))
     = [Error (JStr ''Malformed authentication token: Basic dXNlcg=='')]
   \<and> engine_calls (authenticate (ex_strategy JUndefined JUndefined (JNull, JNull, JNull))
             (ex_kerberos JNull JNull) (ex_request (Some ''Basic dXNlcg=='') None)
             (ex_options JUndefined)) = []
   \<and> actions (authenticate (ex_strategy JUndefined JUndefined (JNull, JNull, JNull))
             (ex_kerberos JNull JNull) (ex_request (Some ''Negotiate TlRMTVNTUAAB'') None)
             (ex_options JUndefined))
     = [Error (JStr ''Client sent NTLM header: TlRMTVNTUAAB'')]
   \<and> engine_calls (authenticate (ex_strategy JUndefined JUndefined (JNull, JNull, JNull))
             (ex_kerberos JNull JNull) (ex_request (Some ''Negotiate TlRMTVNTUAAB'') None)
             (ex_options JUndefined)) = []"
  using C2_malformed_or_ntlm_error
          [of "ex_request (Some ''Basic dXNlcg=='') None" "''Basic dXNlcg==''"
              "ex_strategy JUndefined JUndefined (JNull, JNull, JNull)"
              "ex_kerberos JNull JNull" "ex_options JUndefined"]
        C2_malformed_or_ntlm_error
          [of "ex_request (Some ''Negotiate TlRMTVNTUAAB'') None" "''Negotiate TlRMTVNTUAAB''"
              "ex_strategy JUndefined JUndefined (JNull, JNull, JNull)"
              "ex_kerberos JNull JNull" "ex_options JUndefined"]
  by (simp add: ex_request_def)

text \<open>
  C3, as the specification states it: when the engine fails at \<^verbatim>\<open>init\<close> or at \<^verbatim>\<open>step\<close>,
  the \<^verbatim>\<open>error\<close> action carries one string embedding the step label and the cause. It does
  not: with a keytab that cannot be read, initialisation reports the error object
  \<^verbatim>\<open>Error: keytab unreadable\<close>, and the action carries that object as it is; the label
  \<^verbatim>\<open>init\<close> occurs nowhere in it.
\<close>

theorem C3_counterexample:
  "actions (authenticate (ex_strategy JUndefined JUndefined (JNull, JNull, JNull))
             (ex_kerberos (JError ''keytab unreadable'') JNull)
             (ex_request (Some ''Negotiate YIIC'') None) (ex_options JUndefined))
     = [Error (JError ''keytab unreadable'')]
   \<and> \<not> carries_step_and_cause (JError ''keytab unreadable'') ''init'' (JError ''keytab unreadable'')"
proof -
  have "\<not> sublist ''init'' ''Error: keytab unreadable''"
    by code_simp
  then show ?thesis
    by (simp add: run_defs ex_defs lastIndexOf_0 startsWith_prefix carries_step_and_cause_def)
qed

text \<open>
  C3, amended: when the engine fails at \<^verbatim>\<open>init\<close>, or initialises and then fails at
  \<^verbatim>\<open>step\<close>, the one action emitted is \<^verbatim>\<open>error\<close> carrying the cause exactly as the engine
  reported it. The step label and the cause are embedded in one string, which is the
  last line written to the error console:
  \<^verbatim>\<open>authentication failed at operation '<step>' with error: <cause>\<close>.
\<close>

theorem C3_engine_failure_error:
  assumes "get r ''authorization'' = Some (''Negotiate '' @ tok)" and "\<not> prefix ''TlR'' tok"
    and "initializeServer krb (js_or (self_servicePrincipalName self) (JStr ''HTTP'')) = (ierr, server)"
  shows "(truthy ierr \<longrightarrow>
            actions (authenticate self krb r options) = [Error ierr]
          \<and> last (console (authenticate self krb r options)) = Console_error (failure_line ''init'' ierr))
       \<and> (\<not> truthy ierr \<and> server = Some srv \<and> step srv tok = (serr, resp, st) \<and> truthy serr \<longrightarrow>
            actions (authenticate self krb r options) = [Error serr]
          \<and> last (console (authenticate self krb r options)) = Console_error (failure_line ''step'' serr))"
  using assms
  by (simp add: run_defs lastIndexOf_0 startsWith_prefix failure_line_def)

theorem C3_engine_failure_error_witness:
  "actions (authenticate (ex_strategy JUndefined JUndefined (JNull, JNull, JNull))
             (ex_kerberos (JError ''keytab unreadable'') JNull)
             (ex_request (Some ''Negotiate YIIC'') None) (ex_options JUndefined))
     = [Error (JError ''keytab unreadable'')]
   \<and> last (console (authenticate (ex_strategy JUndefined JUndefined (JNull, JNull, JNull))
             (ex_kerberos (JError ''keytab unreadable'') JNull)
             (ex_request (Some ''Negotiate YIIC'') None) (ex_options JUndefined)))
     = Console_error (failure_line ''init'' (JError ''keytab unreadable''))
   \<and> actions (authenticate (ex_strategy JUndefined JUndefined (JNull, JNull, JNull))
             (ex_kerberos JNull (JError ''bad token''))
             (ex_request (Some ''Negotiate YIIC'') None) (ex_options JUndefined))
     = [Error (JError ''bad token'')]
   \<and> last (console (authenticate (ex_strategy JUndefined JUndefined (JNull, JNull, JNull))
             (ex_kerberos JNull (JError ''bad token''))
             (ex_request (Some ''Negotiate YIIC'') None) (ex_options JUndefined)))
     = Console_error (failure_line ''step'' (JError ''bad token''))"
  using C3_engine_failure_error
          [of "ex_request (Some ''Negotiate YIIC'') None" "''YIIC''"
              "ex_kerberos (JError ''keytab unreadable'') JNull"
              "ex_strategy JUndefined JUndefined (JNull, JNull, JNull)"
              "JError ''keytab unreadable''" None "ex_options JUndefined"]
        C3_engine_failure_error
          [of "ex_request (Some ''Negotiate YIIC'') None" "''YIIC''"
              "ex_kerberos JNull (JError ''bad token'')"
              "ex_strategy JUndefined JUndefined (JNull, JNull, JNull)"
              JNull "Some (ex_server (JError ''bad token''))" "ex_options JUndefined"
              "ex_server (JError ''bad token'')" "JError ''bad token''" "JStr ''response''" ex_state]
  by (simp add: ex_defs js_or_def)

text \<open>
  C4. When initialisation fails, the only call made to the engine is \<^verbatim>\<open>initializeServer\<close>:
  the step is not attempted, and the request (its session included) is as it was. When
  initialisation succeeds and the step fails, the request (its session included) is
  as it was as well, and verify is not called.
\<close>

theorem C4_failure_leaves_request:
  assumes "get r ''authorization'' = Some (''Negotiate '' @ tok)" and "\<not> prefix ''TlR'' tok"
    and "initializeServer krb (js_or (self_servicePrincipalName self) (JStr ''HTTP'')) = (ierr, server)"
  shows "(truthy ierr \<longrightarrow>
            engine_calls (authenticate self krb r options) =
              [InitializeServer (js_or (self_servicePrincipalName self) (JStr ''HTTP''))]
          \<and> req (authenticate self krb r options) = r)
       \<and> (\<not> truthy ierr \<and> server = Some srv \<and> step srv tok = (serr, resp, st) \<and> truthy serr \<longrightarrow>
            req (authenticate self krb r options) = r
          \<and> verify_calls (authenticate self krb r options) = [])"
  using assms
  by (simp add: run_defs lastIndexOf_0 startsWith_prefix)

theorem C4_failure_leaves_request_witness:
  "engine_calls (authenticate (ex_strategy JUndefined (JBool True) (JNull, JNull, JNull))
             (ex_kerberos (JError ''keytab unreadable'') JNull)
             (ex_request (Some ''Negotiate YIIC'') (Some Map.empty)) (ex_options JUndefined))
     = [InitializeServer (JStr ''HTTP'')]
   \<and> req (authenticate (ex_strategy JUndefined (JBool True) (JNull, JNull, JNull))
             (ex_kerberos (JError ''keytab unreadable'') JNull)
             (ex_request (Some ''Negotiate YIIC'') (Some Map.empty)) (ex_options JUndefined))
     = ex_request (Some ''Negotiate YIIC'') (Some Map.empty)
   \<and> req (authenticate (ex_strategy JUndefined (JBool True) (JNull, JNull, JNull))
             (ex_kerberos JNull (JError ''bad token''))
             (ex_request (Some ''Negotiate YIIC'') (Some Map.empty)) (ex_options JUndefined))
     = ex_request (Some ''Negotiate YIIC'') (Some Map.empty)"
  using C4_failure_leaves_request
          [of "ex_request (Some ''Negotiate YIIC'') (Some Map.empty)" "''YIIC''"
              "ex_kerberos (JError ''keytab unreadable'') JNull"
              "ex_strategy JUndefined (JBool True) (JNull, JNull, JNull)"
              "JError ''keytab unreadable''" None "ex_options JUndefined"]
        C4_failure_leaves_request
          [of "ex_request (Some ''Negotiate YIIC'') (Some Map.empty)" "''YIIC''"
              "ex_kerberos JNull (JError ''bad token'')"
              "ex_strategy JUndefined (JBool True) (JNull, JNull, JNull)"
              JNull "Some (ex_server (JError ''bad token''))" "ex_options JUndefined"
              "ex_server (JError ''bad token'')" "JError ''bad token''" "JStr ''response''" ex_state]
  by (simp add: ex_defs js_or_def)

text \<open>
  C5. When negotiation succeeds and verify, on the call \<open>a\<close> that \<^verbatim>\<open>authenticate\<close> makes to
  it, completes with no error and no user (both falsy), the one action emitted is
  \<^verbatim>\<open>redirect(options.noUserRedirect)\<close> when that option is configured (truthy), and
  otherwise \<^verbatim>\<open>fail(new NoUserError(principal))\<close>, the error object made from the principal
  the engine left on the server handle.
\<close>

theorem C5_no_user_redirect_or_fail:
  assumes "get r ''authorization'' = Some (''Negotiate '' @ tok)" and "\<not> prefix ''TlR'' tok"
    and "initializeServer krb (js_or (self_servicePrincipalName self) (JStr ''HTTP'')) = (ierr, Some srv)"
    and "\<not> truthy ierr" and "step srv tok = (serr, resp, st)" and "\<not> truthy serr"
    and "verify_calls (authenticate self krb r options) = [a]"
    and "self_verify self a = (verr, user, info)" and "\<not> truthy verr" and "\<not> truthy user"
  shows "actions (authenticate self krb r options) =
           [if truthy (noUserRedirect options) then Redirect (noUserRedirect options)
            else Fail (NoUserError (username st))]"
proof -
  have "a = (if truthy (self_passReqToCallback self)
             then WithReq (req (authenticate self krb r options)) (username st)
             else PrincipalOnly (username st))"
    using negotiated_verify_call [OF assms(1-6), of options] assms(7) by simp
  with assms(8) have "self_verify self (if truthy (self_passReqToCallback self)
             then WithReq (req (authenticate self krb r options)) (username st)
             else PrincipalOnly (username st)) = (verr, user, info)"
    by simp
  from negotiated_actions [OF assms(1-6) this] assms(9,10) show ?thesis
    by simp
qed

theorem C5_no_user_redirect_or_fail_witness:
  "actions (authenticate (ex_strategy JUndefined JUndefined (JNull, JBool False, JUndefined))
             (ex_kerberos JNull JNull) (ex_request (Some ''Negotiate YIIC'') None)
             (ex_options (JStr ''/needs-account'')))
     = [Redirect (JStr ''/needs-account'')]
   \<and> actions (authenticate (ex_strategy JUndefined JUndefined (JNull, JBool False, JUndefined))
             (ex_kerberos JNull JNull) (ex_request (Some ''Negotiate YIIC'') None)
             (ex_options JUndefined))
     = [Fail (NoUserError (JStr ''alice@EXAMPLE.COM''))]"
proof -
  let ?s = "ex_strategy JUndefined JUndefined (JNull, JBool False, JUndefined)"
  let ?k = "ex_kerberos JNull JNull"
  let ?r = "ex_request (Some ''Negotiate YIIC'') None"
  let ?a = "PrincipalOnly (JStr ''alice@EXAMPLE.COM'')"
  have calls: "verify_calls (authenticate ?s ?k ?r opts) = [?a]" for opts
    by (simp add: flow_defs world_simps verified_simps ex_defs js_or_def)
  show ?thesis
    using C5_no_user_redirect_or_fail
            [of ?r "''YIIC''" ?k ?s JNull "ex_server JNull" JNull "JStr ''response''" ex_state
                "ex_options (JStr ''/needs-account'')" ?a JNull "JBool False" JUndefined]
          C5_no_user_redirect_or_fail
            [of ?r "''YIIC''" ?k ?s JNull "ex_server JNull" JNull "JStr ''response''" ex_state
                "ex_options JUndefined" ?a JNull "JBool False" JUndefined]
          calls
    by (simp add: ex_defs js_or_def)
qed

text \<open>
  C6. When negotiation succeeds and verify, on the call \<open>a\<close> that \<^verbatim>\<open>authenticate\<close> makes to
  it, completes with no error and a user (truthy), the one action emitted is
  \<^verbatim>\<open>success(user, info)\<close> with exactly the user and info verify passed on, and the
  request's \<^verbatim>\<open>authenticatedPrincipal\<close> is the principal the engine left on the handle.
\<close>

theorem C6_user_success:
  assumes "get r ''authorization'' = Some (''Negotiate '' @ tok)" and "\<not> prefix ''TlR'' tok"
    and "initializeServer krb (js_or (self_servicePrincipalName self) (JStr ''HTTP'')) = (ierr, Some srv)"
    and "\<not> truthy ierr" and "step srv tok = (serr, resp, st)" and "\<not> truthy serr"
    and "verify_calls (authenticate self krb r options) = [a]"
    and "self_verify self a = (verr, user, info)" and "\<not> truthy verr" and "truthy user"
  shows "actions (authenticate self krb r options) = [Success user info]
       \<and> props (req (authenticate self krb r options)) ''authenticatedPrincipal'' = Some (username st)"
proof -
  have "a = (if truthy (self_passReqToCallback self)
             then WithReq (req (authenticate self krb r options)) (username st)
             else PrincipalOnly (username st))"
    using negotiated_verify_call [OF assms(1-6), of options] assms(7) by simp
  with assms(8) have "self_verify self (if truthy (self_passReqToCallback self)
             then WithReq (req (authenticate self krb r options)) (username st)
             else PrincipalOnly (username st)) = (verr, user, info)"
    by simp
  from negotiated_actions [OF assms(1-6) this] assms(9,10)
  have "actions (authenticate self krb r options) = [Success user info]"
    by simp
  moreover have "props (req (authenticate self krb r options)) ''authenticatedPrincipal''
                   = Some (username st)"
    by (simp add: negotiated_req(1) [OF assms(1-6)])
  ultimately show ?thesis by simp
qed

theorem C6_user_success_witness:
  "actions (authenticate
             (ex_strategy JUndefined JUndefined
                (JNull, JObj [(''id'', JNum 1)], JObj [(''role'', JStr ''x'')]))
             (ex_kerberos JNull JNull) (ex_request (Some ''Negotiate YIIC'') None)
             (ex_options JUndefined))
     = [Success (JObj [(''id'', JNum 1)]) (JObj [(''role'', JStr ''x'')])]
   \<and> props (req (authenticate
             (ex_strategy JUndefined JUndefined
                (JNull, JObj [(''id'', JNum 1)], JObj [(''role'', JStr ''x'')]))
             (ex_kerberos JNull JNull) (ex_request (Some ''Negotiate YIIC'') None)
             (ex_options JUndefined))) ''authenticatedPrincipal''
     = Some (JStr ''alice@EXAMPLE.COM'')"
proof -
  let ?s = "ex_strategy JUndefined JUndefined
              (JNull, JObj [(''id'', JNum 1)], JObj [(''role'', JStr ''x'')])"
  let ?k = "ex_kerberos JNull JNull"
  let ?r = "ex_request (Some ''Negotiate YIIC'') None"
  let ?a = "PrincipalOnly (JStr ''alice@EXAMPLE.COM'')"
  have calls: "verify_calls (authenticate ?s ?k ?r (ex_options JUndefined)) = [?a]"
    by (simp add: flow_defs world_simps verified_simps ex_defs js_or_def)
  show ?thesis
    using C6_user_success
            [of ?r "''YIIC''" ?k ?s JNull "ex_server JNull" JNull "JStr ''response''" ex_state
                "ex_options JUndefined" ?a JNull "JObj [(''id'', JNum 1)]"
                "JObj [(''role'', JStr ''x'')]"]
          calls
    by (simp add: ex_defs js_or_def)
qed

text \<open>
  C7. When negotiation succeeds: without a session on the request, no session appears,
  nothing is thrown, and the request's own properties are written all the same
  (\<^verbatim>\<open>authenticatedPrincipal\<close>, and \<^verbatim>\<open>delegatedCredentialsCache\<close> when delegation is enabled);
  with a session \<open>s\<close>, the session after the run is \<open>s\<close> with the same properties
  written to it.
\<close>

theorem C7_session_written_iff_present:
  assumes "get r ''authorization'' = Some (''Negotiate '' @ tok)" and "\<not> prefix ''TlR'' tok"
    and "initializeServer krb (js_or (self_servicePrincipalName self) (JStr ''HTTP'')) = (ierr, Some srv)"
    and "\<not> truthy ierr" and "step srv tok = (serr, resp, st)" and "\<not> truthy serr"
  shows "(session r = None \<longrightarrow>
            session (req (authenticate self krb r options)) = None
          \<and> uncaught (authenticate self krb r options) = None
          \<and> props (req (authenticate self krb r options)) =
              (if truthy (self_enableConstrainedDelegation self)
               then (props r)(''authenticatedPrincipal'' \<mapsto> username st,
                              ''delegatedCredentialsCache'' \<mapsto> delegatedCredentialsCache st)
               else (props r)(''authenticatedPrincipal'' \<mapsto> username st)))
       \<and> (session r = Some s \<longrightarrow>
            session (req (authenticate self krb r options)) =
              Some (if truthy (self_enableConstrainedDelegation self)
                    then s(''authenticatedPrincipal'' \<mapsto> username st,
                           ''delegatedCredentialsCache'' \<mapsto> delegatedCredentialsCache st)
                    else s(''authenticatedPrincipal'' \<mapsto> username st))
          \<and> uncaught (authenticate self krb r options) = None)"
  by (simp add: negotiated_req [OF assms])

theorem C7_session_written_iff_present_witness:
  "session (req (authenticate (ex_strategy JUndefined JUndefined (JNull, JNull, JNull))
             (ex_kerberos JNull JNull) (ex_request (Some ''Negotiate YIIC'') None)
             (ex_options JUndefined))) = None
   \<and> uncaught (authenticate (ex_strategy JUndefined JUndefined (JNull, JNull, JNull))
             (ex_kerberos JNull JNull) (ex_request (Some ''Negotiate YIIC'') None)
             (ex_options JUndefined)) = None
   \<and> props (req (authenticate (ex_strategy JUndefined JUndefined (JNull, JNull, JNull))
             (ex_kerberos JNull JNull) (ex_request (Some ''Negotiate YIIC'') None)
             (ex_options JUndefined))) ''authenticatedPrincipal''
       = Some (JStr ''alice@EXAMPLE.COM'')
   \<and> session (req (authenticate (ex_strategy JUndefined JUndefined (JNull, JNull, JNull))
             (ex_kerberos JNull JNull) (ex_request (Some ''Negotiate YIIC'') (Some Map.empty))
             (ex_options JUndefined)))
       = Some [''authenticatedPrincipal'' \<mapsto> JStr ''alice@EXAMPLE.COM'']"
  using C7_session_written_iff_present
          [of "ex_request (Some ''Negotiate YIIC'') None" "''YIIC''" "ex_kerberos JNull JNull"
              "ex_strategy JUndefined JUndefined (JNull, JNull, JNull)" JNull "ex_server JNull"
              JNull "JStr ''response''" ex_state "ex_options JUndefined" Map.empty]
        C7_session_written_iff_present
          [of "ex_request (Some ''Negotiate YIIC'') (Some Map.empty)" "''YIIC''"
              "ex_kerberos JNull JNull"
              "ex_strategy JUndefined JUndefined (JNull, JNull, JNull)" JNull "ex_server JNull"
              JNull "JStr ''response''" ex_state "ex_options JUndefined" Map.empty]
  by (simp add: ex_defs js_or_def)

text \<open>
  C8. When negotiation succeeds: with \<^verbatim>\<open>enableConstrainedDelegation\<close> set (truthy), the
  request's \<^verbatim>\<open>delegatedCredentialsCache\<close> is the cache name the engine left on the handle,
  and so is the session's when there is a session; with it unset (falsy), the
  \<^verbatim>\<open>delegatedCredentialsCache\<close> of the request and of the session are what they were before
  the run, whatever cache name the engine produced.
\<close>

theorem C8_delegation_cache:
  assumes "get r ''authorization'' = Some (''Negotiate '' @ tok)" and "\<not> prefix ''TlR'' tok"
    and "initializeServer krb (js_or (self_servicePrincipalName self) (JStr ''HTTP'')) = (ierr, Some srv)"
    and "\<not> truthy ierr" and "step srv tok = (serr, resp, st)" and "\<not> truthy serr"
  shows "(truthy (self_enableConstrainedDelegation self) \<longrightarrow>
            props (req (authenticate self krb r options)) ''delegatedCredentialsCache''
              = Some (delegatedCredentialsCache st)
          \<and> (session r = Some s \<longrightarrow>
                map_option (\<lambda>m. m ''delegatedCredentialsCache'')
                  (session (req (authenticate self krb r options)))
                  = Some (Some (delegatedCredentialsCache st))))
       \<and> (\<not> truthy (self_enableConstrainedDelegation self) \<longrightarrow>
            props (req (authenticate self krb r options)) ''delegatedCredentialsCache''
              = props r ''delegatedCredentialsCache''
          \<and> map_option (\<lambda>m. m ''delegatedCredentialsCache'')
                  (session (req (authenticate self krb r options)))
              = map_option (\<lambda>m. m ''delegatedCredentialsCache'') (session r))"
  by (simp add: negotiated_req [OF assms] option.map_comp comp_def)

theorem C8_delegation_cache_witness:
  "props (req (authenticate (ex_strategy JUndefined (JBool True) (JNull, JNull, JNull))
             (ex_kerberos JNull JNull) (ex_request (Some ''Negotiate YIIC'') (Some Map.empty))
             (ex_options JUndefined))) ''delegatedCredentialsCache''
       = Some (JStr ''krb5cc_tmp123'')
   \<and> map_option (\<lambda>m. m ''delegatedCredentialsCache'')
         (session (req (authenticate (ex_strategy JUndefined (JBool True) (JNull, JNull, JNull))
             (ex_kerberos JNull JNull) (ex_request (Some ''Negotiate YIIC'') (Some Map.empty))
             (ex_options JUndefined))))
       = Some (Some (JStr ''krb5cc_tmp123''))
   \<and> props (req (authenticate (ex_strategy JUndefined (JBool False) (JNull, JNull, JNull))
             (ex_kerberos JNull JNull) (ex_request (Some ''Negotiate YIIC'') (Some Map.empty))
             (ex_options JUndefined))) ''delegatedCredentialsCache''
       = None
   \<and> map_option (\<lambda>m. m ''delegatedCredentialsCache'')
         (session (req (authenticate (ex_strategy JUndefined (JBool False) (JNull, JNull, JNull))
             (ex_kerberos JNull JNull) (ex_request (Some ''Negotiate YIIC'') (Some Map.empty))
             (ex_options JUndefined))))
       = Some None"
  using C8_delegation_cache
          [of "ex_request (Some ''Negotiate YIIC'') (Some Map.empty)" "''YIIC''"
              "ex_kerberos JNull JNull"
              "ex_strategy JUndefined (JBool True) (JNull, JNull, JNull)" JNull "ex_server JNull"
              JNull "JStr ''response''" ex_state "ex_options JUndefined" Map.empty]
        C8_delegation_cache
          [of "ex_request (Some ''Negotiate YIIC'') (Some Map.empty)" "''YIIC''"
              "ex_kerberos JNull JNull"
              "ex_strategy JUndefined (JBool False) (JNull, JNull, JNull)" JNull "ex_server JNull"
              JNull "JStr ''response''" ex_state "ex_options JUndefined" Map.empty]
  by (simp add: ex_defs js_or_def)

text \<open>
  C9. Two runs that differ only in the value \<open>v\<close> of the verbose flag emit the same
  actions, leave the same request (session included), make the same calls to the engine
  and to verify, and throw alike: only the console output can differ.
\<close>

theorem C9_verbose_is_observational:
  "actions (authenticate (self\<lparr>self_verbose := v\<rparr>) krb r options)
     = actions (authenticate self krb r options)
   \<and> req (authenticate (self\<lparr>self_verbose := v\<rparr>) krb r options)
     = req (authenticate self krb r options)
   \<and> engine_calls (authenticate (self\<lparr>self_verbose := v\<rparr>) krb r options)
     = engine_calls (authenticate self krb r options)
   \<and> verify_calls (authenticate (self\<lparr>self_verbose := v\<rparr>) krb r options)
     = verify_calls (authenticate self krb r options)
   \<and> uncaught (authenticate (self\<lparr>self_verbose := v\<rparr>) krb r options)
     = uncaught (authenticate self krb r options)"
proof -
  have "observable (authenticate (self\<lparr>self_verbose := v\<rparr>) krb r options)
          = observable (authenticate self krb r options)"
  proof (cases "get r ''authorization''")
    case None
    then show ?thesis
      by (simp add: authenticate_def Let_def observable_def world_simps)
  next
    case (Some auth)
    show ?thesis
    proof (cases "auth = [] \<or> \<not> prefix ''Negotiate '' auth
                   \<or> startsWith (substring auth (length ''Negotiate '')) ''TlR''")
      case True
      with Some show ?thesis
        by (auto simp: authenticate_def Let_def observable_def world_simps lastIndexOf_0)
    next
      case False
      let ?spn = "js_or (self_servicePrincipalName self) (JStr ''HTTP'')"
      have "observable (engine_call (InitializeServer ?spn)
                (when_verbose (self\<lparr>self_verbose := v\<rparr>)
                   (console_log (''InitServer '' @ to_string ?spn)) (start r)))
            = observable (engine_call (InitializeServer ?spn)
                (when_verbose self (console_log (''InitServer '' @ to_string ?spn)) (start r)))"
        by (simp add: observable_def world_simps)
      from on_init_observable [OF this] Some False show ?thesis
        by (simp add: authenticate_def Let_def lastIndexOf_0)
    qed
  qed
  then show ?thesis
    by (simp add: observable_def)
qed

text \<open>
  C10. The constructor throws the \<^verbatim>\<open>Error\<close> "negotiate authentication strategy requires
  a verify function" when called with no arguments and when called with an options
  object alone. Called with a function alone, it succeeds: the function is the verify
  callback, and every option reads as \<^verbatim>\<open>undefined\<close>, as from the empty object.
\<close>

theorem C10_constructor:
  "Strategy ArgUndefined None =
     Inl (Throw_Error ''negotiate authentication strategy requires a verify function'')
   \<and> Strategy (ArgObject ob) None =
     Inl (Throw_Error ''negotiate authentication strategy requires a verify function'')
   \<and> Strategy (ArgFunction f) None =
     Inr \<lparr>name = ''negotiate'', self_verify = f, self_passReqToCallback = JUndefined,
          self_servicePrincipalName = JUndefined, self_verbose = JUndefined,
          self_enableConstrainedDelegation = JUndefined\<rparr>"
  by (simp add: Strategy_def empty_options_def)

end
